theory Spec2Isabelle
  imports Complex_Main
begin

section \<open>Decoded records\<close>

text \<open>
  The value \<open>json.loads\<close> returns for one line: \<open>None\<close>, \<open>bool\<close>, \<open>int\<close>, \<open>float\<close>,
  \<open>str\<close>, \<open>list\<close> or \<open>dict\<close>. A \<open>dict\<close> is an association list in insertion order
  (the order \<open>data.items()\<close> iterates in). A Python \<open>float\<close> is modelled by the exact
  rational number it denotes and arithmetic on floats by exact arithmetic on rationals:
  rounding, overflow, infinities, NaN and the negative zero are outside this model.
\<close>

datatype json =
    JNull
  | JBool bool
  | JInt int
  | JFloat rat
  | JStr string
  | JArr "json list"
  | JObj "(string \<times> json) list"

text \<open>
  \<open>float(v)\<close> inside \<open>try: ... except Exception\<close>: \<open>None\<close> stands for the exception
  (\<open>TypeError\<close> for \<open>None\<close>, a list or a dict, \<open>ValueError\<close> for a string that is not a
  number). \<open>bool\<close> is a subclass of \<open>int\<close>, so \<open>float(True)\<close> is \<open>1.0\<close>. What
  \<open>float\<close> makes of a string is the builtin's business: it is the parameter \<open>sf\<close>.
  An \<open>int\<close> is taken at its exact value.
\<close>

fun py_float :: "(string \<Rightarrow> rat option) \<Rightarrow> json \<Rightarrow> rat option" where
  "py_float sf (JBool b) = Some (if b then 1 else 0)"
| "py_float sf (JInt n) = Some (of_int n)"
| "py_float sf (JFloat x) = Some x"
| "py_float sf (JStr s) = sf s"
| "py_float sf JNull = None"
| "py_float sf (JArr xs) = None"
| "py_float sf (JObj kvs) = None"

text \<open>An instance of \<open>sf\<close> for records whose strings are not numbers.\<close>

definition no_numeric_strings :: "string \<Rightarrow> rat option" where
  "no_numeric_strings s = None"

text \<open>\<open>x / y\<close> on floats raises \<open>ZeroDivisionError\<close> when \<open>y\<close> is zero.\<close>

definition py_div :: "rat \<Rightarrow> rat \<Rightarrow> rat option" where
  "py_div x y = (if y = 0 then None else Some (x / y))"

text \<open>\<open>int(x)\<close> on a float truncates towards zero.\<close>

definition py_int :: "rat \<Rightarrow> int" where
  "py_int x = (if 0 \<le> x then \<lfloor>x\<rfloor> else \<lceil>x\<rceil>)"

section \<open>The matrix classifier\<close>

fun is_list :: "json \<Rightarrow> bool" where
  "is_list (JArr xs) = True"
| "is_list v = False"

fun is_dict :: "json \<Rightarrow> bool" where
  "is_dict (JObj kvs) = True"
| "is_dict v = False"

text \<open>\<open>len(r)\<close>; \<open>None\<close> is the \<open>TypeError\<close> of a value without a length.\<close>

fun py_len :: "json \<Rightarrow> nat option" where
  "py_len (JArr xs) = Some (length xs)"
| "py_len (JObj kvs) = Some (length kvs)"
| "py_len (JStr s) = Some (length s)"
| "py_len v = None"

text \<open>
  \<open>isinstance(arr, list) and arr and all(isinstance(r, list) for r in arr)
  and all(len(r) == len(arr[0]) for r in arr)\<close>. The conjunction is evaluated left to
  right, so \<open>arr[0]\<close> and \<open>len(r)\<close> are only reached on a non-empty list of lists.
\<close>

definition is_2d_array :: "json \<Rightarrow> bool" where
  "is_2d_array arr =
     (case arr of
        JArr rows \<Rightarrow>
          rows \<noteq> [] \<and> list_all is_list rows
          \<and> list_all (\<lambda>r. py_len r = py_len (rows ! 0)) rows
      | _ \<Rightarrow> False)"

text \<open>The rows of a list of lists, as \<open>add_table\<close> reads them.\<close>

fun cells_of :: "json \<Rightarrow> json list" where
  "cells_of (JArr xs) = xs"
| "cells_of v = []"

definition rows_of :: "json \<Rightarrow> json list list" where
  "rows_of v = map cells_of (cells_of v)"

text \<open>
  The matrix of the specification: a non-empty sequence of sequences of scalars, every
  inner sequence as long as the first.
\<close>

fun is_scalar :: "json \<Rightarrow> bool" where
  "is_scalar (JArr xs) = False"
| "is_scalar (JObj kvs) = False"
| "is_scalar v = True"

definition spec_matrix :: "json \<Rightarrow> bool" where
  "spec_matrix v =
     (case v of
        JArr rows \<Rightarrow>
          rows \<noteq> [] \<and> list_all is_list rows
          \<and> list_all (\<lambda>r. list_all is_scalar (cells_of r)) rows
          \<and> list_all (\<lambda>r. length (cells_of r) = length (cells_of (hd rows))) rows
      | _ \<Rightarrow> False)"

section \<open>Numeric display formatting\<close>

text \<open>
  The text of a table cell or label: a string the program built, or \<open>str(v)\<close> of a
  decoded value, kept symbolic.
\<close>

datatype display_text = Plain string | PyStr json

definition digit_char :: "nat \<Rightarrow> char" where
  "digit_char d = ''0123456789'' ! (d mod 10)"

fun nat_digits :: "nat \<Rightarrow> string" where
  "nat_digits n = (if n < 10 then [digit_char n] else nat_digits (n div 10) @ [digit_char n])"

declare nat_digits.simps [simp del]

definition round_half_even :: "rat \<Rightarrow> int" where
  "round_half_even x =
     (let f = \<lfloor>x\<rfloor>; d = x - of_int f
      in if d < 1 / 2 then f else if 1 / 2 < d then f + 1 else if even f then f else f + 1)"

text \<open>The \<open>p\<close> digits after the decimal point, padded with zeros on the left.\<close>

definition frac_digits :: "nat \<Rightarrow> nat \<Rightarrow> string" where
  "frac_digits p n = replicate (p - length (nat_digits n)) (CHR ''0'') @ nat_digits n"

text \<open>
  \<open>f"{num:.{p}f}"\<close>: the sign, the integer part, and for \<open>p > 0\<close> a point and exactly
  \<open>p\<close> digits, the value rounded to \<open>p\<close> places, ties to even.
\<close>

definition format_fixed :: "nat \<Rightarrow> rat \<Rightarrow> string" where
  "format_fixed p x =
     (let scaled = nat (round_half_even (\<bar>x\<bar> * 10 ^ p))
      in (if x < 0 then ''-'' else [])
         @ nat_digits (scaled div 10 ^ p)
         @ (if p = 0 then [] else CHR ''.'' # frac_digits p (scaled mod 10 ^ p)))"

text \<open>\<open>s.rstrip(c)\<close> and \<open>s.split('.')[0]\<close>.\<close>

definition rstrip :: "char \<Rightarrow> string \<Rightarrow> string" where
  "rstrip c s = rev (dropWhile (\<lambda>x. x = c) (rev s))"

definition split_dot_first :: "string \<Rightarrow> string" where
  "split_dot_first s = takeWhile (\<lambda>x. x \<noteq> CHR ''.'') s"

definition format_for_display ::
  "(string \<Rightarrow> rat option) \<Rightarrow> nat \<Rightarrow> json \<Rightarrow> display_text" where
  "format_for_display sf precision val =
     (case py_float sf val of
        Some num \<Rightarrow>
          (let s = format_fixed precision num
           in if 0 < precision then Plain (rstrip (CHR ''.'') (rstrip (CHR ''0'') s))
              else Plain (split_dot_first s))
      | None \<Rightarrow> PyStr val)"

text \<open>
  The rendering the specification describes: at most \<open>p\<close> decimal places, trailing zeros
  stripped, and no point when no decimal is left.
\<close>

definition scaled_value :: "nat \<Rightarrow> rat \<Rightarrow> nat" where
  "scaled_value p x = nat (round_half_even (\<bar>x\<bar> * 10 ^ p))"

definition spec_decimals :: "nat \<Rightarrow> rat \<Rightarrow> string" where
  "spec_decimals p x =
     rstrip (CHR ''0'') (if p = 0 then [] else frac_digits p (scaled_value p x mod 10 ^ p))"

definition spec_render :: "nat \<Rightarrow> rat \<Rightarrow> string" where
  "spec_render p x =
     (if x < 0 then ''-'' else [])
     @ nat_digits (scaled_value p x div 10 ^ p)
     @ (if spec_decimals p x = [] then [] else CHR ''.'' # spec_decimals p x)"

section \<open>Heatmap colouring\<close>

datatype qcolor = QColor int int int

definition lerp :: "rat \<Rightarrow> rat \<Rightarrow> rat \<Rightarrow> int" where
  "lerp a b t = py_int (a + (b - a) * max 0 (min 1 t))"

definition green_color :: "rat \<Rightarrow> qcolor" where
  "green_color t = QColor (lerp 234 184 t) (lerp 251 240 t) (lerp 234 184 t)"

definition red_color :: "rat \<Rightarrow> qcolor" where
  "red_color t = QColor (lerp 255 255 t) (lerp 234 140 t) (lerp 234 140 t)"

text \<open>The first loop of \<open>add_table\<close>: the floats of the cells that parse, in order.\<close>

fun collect_row :: "(string \<Rightarrow> rat option) \<Rightarrow> json list \<Rightarrow> rat list \<Rightarrow> rat list" where
  "collect_row sf [] nums = nums"
| "collect_row sf (v # vs) nums =
     collect_row sf vs (case py_float sf v of Some x \<Rightarrow> nums @ [x] | None \<Rightarrow> nums)"

fun collect_nums :: "(string \<Rightarrow> rat option) \<Rightarrow> json list list \<Rightarrow> rat list \<Rightarrow> rat list" where
  "collect_nums sf [] nums = nums"
| "collect_nums sf (r # rs) nums = collect_nums sf rs (collect_row sf r nums)"

text \<open>
  The specification's reading of that loop: the values of exactly the cells that parse,
  and their arithmetic mean (0 when no cell parses, as the code has it).
\<close>

definition numeric_cells :: "(string \<Rightarrow> rat option) \<Rightarrow> json list list \<Rightarrow> rat list" where
  "numeric_cells sf table_data = List.map_filter (py_float sf) (concat table_data)"

definition arithmetic_mean :: "rat list \<Rightarrow> rat" where
  "arithmetic_mean xs = (if xs = [] then 0 else sum_list xs / of_nat (length xs))"

text \<open>\<open>avg = sum(nums) / len(nums) if nums else 0.0\<close>\<close>

definition heatmap_avg :: "(string \<Rightarrow> rat option) \<Rightarrow> json list list \<Rightarrow> rat" where
  "heatmap_avg sf table_data =
     (let nums = collect_nums sf table_data []
      in if nums \<noteq> [] then sum_list nums / of_nat (length nums) else 0)"

text \<open>
  The band a numeric cell falls in and its interpolation parameter \<open>t\<close>: \<open>InBand t\<close> is
  the call \<open>_green_color(t)\<close>, \<open>OutBand t\<close> the call \<open>_red_color(t)\<close>.
\<close>

datatype shade = InBand rat | OutBand rat

definition red_cap_factor :: rat where
  "red_cap_factor = 5"

text \<open>
  The body of the \<open>try\<close> after \<open>num = float(raw_val)\<close>. \<open>None\<close> is a
  \<open>ZeroDivisionError\<close>, which the surrounding \<open>except Exception: pass\<close> swallows.
\<close>

definition cell_shade :: "rat \<Rightarrow> rat \<Rightarrow> rat \<Rightarrow> shade option" where
  "cell_shade max_dev avg num =
     (case py_div \<bar>num - avg\<bar> \<bar>avg\<bar> of
        None \<Rightarrow> None
      | Some diff \<Rightarrow>
          if diff \<le> max_dev then map_option InBand (py_div diff max_dev)
          else
            (let over = diff - max_dev;
                 denom = max (max_dev * red_cap_factor) (1 / 10 ^ 12)
             in map_option (\<lambda>q. OutBand (max 0 (min 1 q))) (py_div over denom)))"

text \<open>
  The out-of-band parameter as the specification writes it, with \<open>capFactor = 5\<close>:
  \<open>clamp((diff - max_deviation) / (max_deviation * capFactor), 0, 1)\<close>.
\<close>

definition spec_out_band_t :: "rat \<Rightarrow> rat \<Rightarrow> rat" where
  "spec_out_band_t max_dev diff = max 0 (min 1 ((diff - max_dev) / (max_dev * 5)))"

fun shade_color :: "shade \<Rightarrow> qcolor" where
  "shade_color (InBand t) = green_color t"
| "shade_color (OutBand t) = red_color t"

text \<open>
  The background of one cell: \<open>None\<close> when \<open>item.setBackground\<close> is never called.
\<close>

definition cell_background ::
  "(string \<Rightarrow> rat option) \<Rightarrow> rat option \<Rightarrow> rat \<Rightarrow> json \<Rightarrow> qcolor option" where
  "cell_background sf max_dev avg raw_val =
     (case max_dev of
        None \<Rightarrow> None
      | Some md \<Rightarrow>
          if avg \<noteq> 0 then
            (case py_float sf raw_val of
               None \<Rightarrow> None
             | Some num \<Rightarrow> map_option shade_color (cell_shade md avg num))
          else None)"

record item =
  text_of :: display_text
  background :: "qcolor option"

definition make_item ::
  "(string \<Rightarrow> rat option) \<Rightarrow> nat \<Rightarrow> rat option \<Rightarrow> rat \<Rightarrow> json \<Rightarrow> item" where
  "make_item sf precision max_dev avg raw_val =
     \<lparr>text_of = format_for_display sf precision raw_val,
      background = cell_background sf max_dev avg raw_val\<rparr>"

text \<open>
  \<open>add_table\<close>: the items of the \<open>rows \<times> cols\<close> table, \<open>cols\<close> the length of the first
  row. \<open>None\<close> is the \<open>IndexError\<close> of \<open>table_data[0]\<close> on an empty list or of
  \<open>table_data[i][j]\<close> on a row shorter than the first.
\<close>

definition add_table ::
  "(string \<Rightarrow> rat option) \<Rightarrow> nat \<Rightarrow> json list list \<Rightarrow> rat option \<Rightarrow> item list list option" where
  "add_table sf precision table_data max_dev =
     (case table_data of
        [] \<Rightarrow> None
      | r0 # rest \<Rightarrow>
          (let rows = length table_data; cols = length r0;
               avg = heatmap_avg sf table_data
           in if list_all (\<lambda>r. cols \<le> length r) table_data
              then Some (map (\<lambda>i. map (\<lambda>j. make_item sf precision max_dev avg (table_data ! i ! j))
                                     [0..<cols]) [0..<rows])
              else None))"

section \<open>The table view\<close>

text \<open>
  A widget added to a layout: a label (text, bold, indent) or a table of items.
\<close>

datatype widget = Label display_text bool nat | Table "item list list"

text \<open>
  The fields of \<open>TableViewer\<close> that rendering reads and writes. \<open>heatmap_rules\<close> is
  \<open>None\<close> or a dict from table name to threshold; \<open>last_rendered\<close> starts as Python's
  \<open>None\<close>, which is \<open>JNull\<close>.
\<close>

record table_viewer =
  precision :: nat
  heatmap_rules :: "(string \<times> rat) list option"
  default_max_dev :: rat
  content_layout :: "widget list"
  last_rendered :: json

text \<open>
  \<open>TableViewer.__init__\<close>: \<open>dict(heatmap_rules) if heatmap_rules else None\<close> turns an
  empty dict into \<open>None\<close>.
\<close>

definition table_viewer_init ::
  "nat option \<Rightarrow> (string \<times> rat) list option \<Rightarrow> rat option \<Rightarrow> table_viewer" where
  "table_viewer_init prec rules dflt =
     \<lparr>precision = (case prec of Some p \<Rightarrow> p | None \<Rightarrow> 3),
      heatmap_rules = (case rules of Some (r # rs) \<Rightarrow> Some (r # rs) | _ \<Rightarrow> None),
      default_max_dev = (case dflt of Some d \<Rightarrow> d | None \<Rightarrow> 5 / 100),
      content_layout = [],
      last_rendered = JNull\<rparr>"

text \<open>
  The rule of a table in \<open>render_data\<close>: \<open>max_dev = None\<close>, then the default when
  \<open>heatmap_rules is None\<close>, else the rule of the key when \<open>key in heatmap_rules\<close>.
\<close>

definition resolve_max_dev :: "(string \<times> rat) list option \<Rightarrow> rat \<Rightarrow> string \<Rightarrow> rat option" where
  "resolve_max_dev rules dflt key =
     (case rules of
        None \<Rightarrow> Some dflt
      | Some named \<Rightarrow> (case map_of named key of Some md \<Rightarrow> Some md | None \<Rightarrow> None))"

text \<open>
  \<open>render_data\<close>: the widgets it adds to the content layout, in order. \<open>add_table\<close>
  cannot fail behind the \<open>is_2d_array\<close> test; its \<open>None\<close> branch is there for totality.
\<close>

fun render_data :: "(string \<Rightarrow> rat option) \<Rightarrow> table_viewer \<Rightarrow> json \<Rightarrow> widget list" where
  "render_data sf tv (JObj kvs) =
     concat (map (\<lambda>(key, value).
        if is_list value \<and> is_2d_array value then
          Label (Plain (key @ '':'')) True 0
          # (case add_table sf (precision tv) (rows_of value)
                    (resolve_max_dev (heatmap_rules tv) (default_max_dev tv) key) of
               Some t \<Rightarrow> [Table t]
             | None \<Rightarrow> [])
        else if is_dict value \<or> is_list value then render_data sf tv value
        else []) kvs)"
| "render_data sf tv (JArr xs) = concat (map (render_data sf tv) xs)"
| "render_data sf tv v = []"

text \<open>
  Python's \<open>==\<close> on decoded values: numbers (\<open>bool\<close>, \<open>int\<close>, \<open>float\<close>) compare by
  value, lists element by element, dicts by keys and values whatever the order.
\<close>

fun num_value :: "json \<Rightarrow> rat option" where
  "num_value (JBool b) = Some (if b then 1 else 0)"
| "num_value (JInt n) = Some (of_int n)"
| "num_value (JFloat x) = Some x"
| "num_value v = None"

function (sequential) py_eq :: "json \<Rightarrow> json \<Rightarrow> bool" where
  "py_eq (JArr xs) (JArr ys) = list_all2 py_eq xs ys"
| "py_eq (JObj kvs) (JObj kws) =
     (length kvs = length kws
      \<and> (\<forall>(k, v) \<in> set kvs. case map_of kws k of None \<Rightarrow> False | Some w \<Rightarrow> py_eq v w))"
| "py_eq (JStr a) (JStr b) = (a = b)"
| "py_eq JNull JNull = True"
| "py_eq a b = (case num_value a of
                  None \<Rightarrow> False
                | Some x \<Rightarrow> (case num_value b of None \<Rightarrow> False | Some y \<Rightarrow> x = y))"
  by pat_completeness auto
termination
proof -
  have arr: "size x < Suc (size_list size xs)" if "x \<in> set xs" for x :: json and xs
    using that by (induction xs) auto
  have obj: "size v < Suc (size_list (size_prod (\<lambda>x. 0) size) kvs)"
    if "(k, v) \<in> set kvs" for k :: string and v :: json and kvs
    using that by (induction kvs) auto
  show ?thesis
    by (relation "measure (\<lambda>(a, b). size a)") (auto simp: arr obj)
qed

text \<open>
  A decoded dict has no key twice (\<open>json.loads\<close> keeps the last value of a repeated key).
\<close>

fun wf_json :: "json \<Rightarrow> bool" where
  "wf_json (JArr xs) = list_all wf_json xs"
| "wf_json (JObj kvs) = (distinct (map fst kvs) \<and> list_all (\<lambda>(k, v). wf_json v) kvs)"
| "wf_json v = True"

text \<open>
  The calls made on Qt layouts: \<open>layout.takeAt(0)\<close> with \<open>w.setParent(None)\<close>, and
  \<open>layout.addWidget(w)\<close>. A function that changes the view returns the calls it made.
\<close>

datatype layout_id = ContentLayout | NonTableLayout

datatype qt_call = TakeAt layout_id widget | AddWidget layout_id widget

definition clear_layout :: "layout_id \<Rightarrow> widget list \<Rightarrow> qt_call list" where
  "clear_layout l layout = map (TakeAt l) layout"

definition display_tables ::
  "(string \<Rightarrow> rat option) \<Rightarrow> table_viewer \<Rightarrow> json \<Rightarrow> table_viewer \<times> qt_call list" where
  "display_tables sf tv data =
     (if py_eq data (last_rendered tv) then (tv, [])
      else
        (let added = render_data sf tv data
         in (tv\<lparr>content_layout := added, last_rendered := data\<rparr>,
             clear_layout ContentLayout (content_layout tv) @ map (AddWidget ContentLayout) added)))"

section \<open>The companion view and the update of both\<close>

record app =
  table_view :: table_viewer
  non_table_layout :: "widget list"

text \<open>
  \<open>App.__init__\<close>: a fresh \<open>TableViewer\<close> and an empty companion layout. The rules dict
  it builds from the configuration is the parameter \<open>rules\<close>.
\<close>

definition app_init :: "nat option \<Rightarrow> (string \<times> rat) list option \<Rightarrow> rat option \<Rightarrow> app" where
  "app_init prec rules dflt =
     \<lparr>table_view = table_viewer_init prec rules dflt, non_table_layout = []\<rparr>"

fun recurse :: "json \<Rightarrow> widget list" where
  "recurse (JObj kvs) =
     concat (map (\<lambda>(k, v).
        if is_list v \<and> is_2d_array v then []
        else [Label (Plain (k @ '':'')) True 0, Label (PyStr v) False 10]) kvs)"
| "recurse (JArr xs) = concat (map recurse xs)"
| "recurse d = [Label (PyStr d) False 0]"

definition render_non_table :: "app \<Rightarrow> json \<Rightarrow> app \<times> qt_call list" where
  "render_non_table a data =
     (let added = recurse data
      in (a\<lparr>non_table_layout := added\<rparr>,
          clear_layout NonTableLayout (non_table_layout a) @ map (AddWidget NonTableLayout) added))"

definition update_view :: "(string \<Rightarrow> rat option) \<Rightarrow> app \<Rightarrow> json \<Rightarrow> app \<times> qt_call list" where
  "update_view sf a data =
     (let (tv, calls1) = display_tables sf (table_view a) data;
          (a', calls2) = render_non_table (a\<lparr>table_view := tv\<rparr>) data
      in (a', calls1 @ calls2))"

section \<open>The reader loop\<close>

text \<open>
  One pass of the \<open>while\<close> loop of \<open>SerialWorker.start\<close>. \<open>readline()\<close> gives a decoded
  line (empty on timeout) or raises; \<open>json.loads\<close> is the parameter \<open>loads\<close>, \<open>None\<close> its
  \<open>JSONDecodeError\<close>. The signal is declared \<open>pyqtSignal(dict)\<close>: \<open>emit\<close> takes a dict
  and raises \<open>TypeError\<close> on any other value, which the outer \<open>except Exception\<close> prints.
\<close>

datatype read_result = Line string | ReadFailed

datatype printed_error = SerialError | EmitTypeError

record serial_worker =
  buffer :: string
  emitted :: "json list"
  printed :: "printed_error list"

definition read_step ::
  "(string \<Rightarrow> json option) \<Rightarrow> serial_worker \<Rightarrow> read_result \<Rightarrow> serial_worker" where
  "read_step loads w r =
     (case r of
        ReadFailed \<Rightarrow> w\<lparr>printed := printed w @ [SerialError]\<rparr>
      | Line line \<Rightarrow>
          if line = [] then w
          else
            (case loads line of
               None \<Rightarrow> w\<lparr>buffer := line\<rparr>
             | Some json_data \<Rightarrow>
                 if is_dict json_data
                 then w\<lparr>buffer := [], emitted := emitted w @ [json_data]\<rparr>
                 else w\<lparr>buffer := line, printed := printed w @ [EmitTypeError]\<rparr>))"

fun start :: "(string \<Rightarrow> json option) \<Rightarrow> serial_worker \<Rightarrow> read_result list \<Rightarrow> serial_worker" where
  "start loads w [] = w"
| "start loads w (r # rs) = start loads (read_step loads w r) rs"

text \<open>What one read contributes to the emitted records, whatever came before it.\<close>

definition records_of :: "(string \<Rightarrow> json option) \<Rightarrow> read_result \<Rightarrow> json list" where
  "records_of loads r =
     (case r of
        ReadFailed \<Rightarrow> []
      | Line line \<Rightarrow>
          if line = [] then []
          else (case loads line of
                  None \<Rightarrow> []
                | Some v \<Rightarrow> if is_dict v then [v] else []))"

text \<open>
  Three lines and an instance of \<open>loads\<close> on them: \<open>{"a": 1}\<close> with its newline is
  an object, \<open>[1]\<close> with its newline is an array, and the truncated \<open>{"a": 1\<close> is not
  JSON, like every other line of this instance.
\<close>

definition line_object :: string where
  "line_object = [CHR ''{'', CHR 0x22, CHR ''a'', CHR 0x22, CHR '':'', CHR '' '', CHR ''1'', CHR ''}'', CHR 0x0A]"

definition line_truncated :: string where
  "line_truncated = [CHR ''{'', CHR 0x22, CHR ''a'', CHR 0x22, CHR '':'', CHR '' '', CHR ''1'']"

definition line_array :: string where
  "line_array = [CHR ''['', CHR ''1'', CHR '']'', CHR 0x0A]"

definition sample_loads :: "string \<Rightarrow> json option" where
  "sample_loads line =
     (if line = line_object then Some (JObj [(''a'', JInt 1)])
      else if line = line_array then Some (JArr [JInt 1])
      else None)"

text \<open>The worker before its first read: \<open>buffer = ""\<close>, nothing emitted or printed.\<close>

definition serial_worker_init :: serial_worker where
  "serial_worker_init = \<lparr>buffer = [], emitted = [], printed = []\<rparr>"

section \<open>Properties\<close>

lemma collect_row_eq: "collect_row sf vs nums = nums @ List.map_filter (py_float sf) vs"
  by (induction vs arbitrary: nums) (auto simp: List.map_filter_simps split: option.splits)

lemma map_filter_append': "List.map_filter f (xs @ ys) = List.map_filter f xs @ List.map_filter f ys"
  by (simp add: List.map_filter_def)

lemma collect_nums_eq: "collect_nums sf rs nums = nums @ numeric_cells sf rs"
  by (induction rs arbitrary: nums) (auto simp: numeric_cells_def collect_row_eq map_filter_append' List.map_filter_simps)

lemma heatmap_avg_mean:
  "heatmap_avg sf td = (if numeric_cells sf td = [] then 0 else sum_list (numeric_cells sf td) / of_nat (length (numeric_cells sf td)))"
  by (simp add: heatmap_avg_def collect_nums_eq Let_def)

lemma is_list_JArr: "is_list x \<longleftrightarrow> (\<exists>xs. x = JArr xs)"
  by (cases x) simp_all

lemma is_list_cells: "is_list x \<Longrightarrow> JArr (cells_of x) = x"
  by (cases x) simp_all

lemma is_list_len: "is_list x \<Longrightarrow> py_len x = Some (length (cells_of x))"
  by (cases x) simp_all

lemma is_2d_array_JArr:
  "is_2d_array (JArr rs) \<longleftrightarrow> rs \<noteq> [] \<and> (\<forall>r \<in> set rs. is_list r \<and> length (cells_of r) = length (cells_of (hd rs)))"
proof (cases rs)
  case Nil
  then show ?thesis by (simp add: is_2d_array_def)
next
  case (Cons r0 rest)
  show ?thesis
  proof (cases "\<forall>r \<in> set rs. is_list r")
    case True
    have "py_len r = py_len (rs ! 0) \<longleftrightarrow> length (cells_of r) = length (cells_of (hd rs))"
      if "r \<in> set rs" for r
    proof -
      have "is_list r" "is_list r0" using True that Cons by auto
      then show ?thesis using Cons by (simp add: is_list_len)
    qed
    with True Cons show ?thesis
      unfolding is_2d_array_def list_all_iff by auto
  next
    case False
    then show ?thesis unfolding is_2d_array_def list_all_iff by auto
  qed
qed


lemma is_2d_array_is_list: "is_2d_array v \<Longrightarrow> is_list v"
  by (cases v) (simp_all add: is_2d_array_def)

lemma rows_of_map_JArr: "rows_of (JArr (map JArr rows)) = rows"
proof -
  have "map (\<lambda>r. cells_of (JArr r)) rows = rows"
    by (rule map_idI) simp
  then show ?thesis by (simp add: rows_of_def comp_def)
qed

lemma is_2d_array_ex: "is_2d_array v \<Longrightarrow> \<exists>rs. v = JArr rs"
  using is_2d_array_is_list is_list_JArr by blast

lemma is_2d_array_rows:
  "is_2d_array v \<longleftrightarrow> (\<exists>rows. v = JArr (map JArr rows) \<and> rows \<noteq> [] \<and> (\<forall>r \<in> set rows. length r = length (hd rows)))"
proof
  assume a: "is_2d_array v"
  from is_2d_array_ex [OF a] obtain rs where v: "v = JArr rs" ..
  from a have b: "rs \<noteq> [] \<and> (\<forall>r \<in> set rs. is_list r \<and> length (cells_of r) = length (cells_of (hd rs)))"
    unfolding v is_2d_array_JArr .
  from b have ne: "rs \<noteq> []" by (rule conjunct1)
  from b have all: "is_list r" if "r \<in> set rs" for r using that by blast
  from b have len: "length (cells_of r) = length (cells_of (hd rs))" if "r \<in> set rs" for r
    using that by blast
  have "map (\<lambda>r. JArr (cells_of r)) rs = rs"
    by (rule map_idI) (simp add: all is_list_cells)
  then have "map JArr (map cells_of rs) = rs"
    by (simp add: comp_def)
  then have eq: "v = JArr (map JArr (map cells_of rs))"
    unfolding v by (rule arg_cong[OF sym])
  have hd_rows: "hd (map cells_of rs) = cells_of (hd rs)"
    using ne by (rule hd_map)
  have same: "\<forall>r \<in> set (map cells_of rs). length r = length (hd (map cells_of rs))"
    unfolding hd_rows
  proof
    fix r assume "r \<in> set (map cells_of rs)"
    then obtain x where x: "x \<in> set rs" and r: "r = cells_of x" by auto
    show "length r = length (cells_of (hd rs))" unfolding r by (rule len [OF x])
  qed
  have nonempty: "map cells_of rs \<noteq> []" using ne by simp
  show "\<exists>rows. v = JArr (map JArr rows) \<and> rows \<noteq> [] \<and> (\<forall>r \<in> set rows. length r = length (hd rows))"
    using eq nonempty same by (intro exI[of _ "map cells_of rs"] conjI)
next
  assume "\<exists>rows. v = JArr (map JArr rows) \<and> rows \<noteq> [] \<and> (\<forall>r \<in> set rows. length r = length (hd rows))"
  then obtain rows where v: "v = JArr (map JArr rows)" and ne: "rows \<noteq> []"
    and len: "\<forall>r \<in> set rows. length r = length (hd rows)" by (elim exE conjE)
  have hd_rows: "hd (map JArr rows) = JArr (hd rows)"
    using ne by (rule hd_map)
  have "\<forall>r \<in> set (map JArr rows). is_list r \<and> length (cells_of r) = length (cells_of (hd (map JArr rows)))"
    unfolding hd_rows
  proof
    fix r assume "r \<in> set (map JArr rows)"
    then obtain x where x: "x \<in> set rows" and r: "r = JArr x" by auto
    from len x have "length x = length (hd rows)" by (rule bspec)
    then show "is_list r \<and> length (cells_of r) = length (cells_of (JArr (hd rows)))"
      unfolding r by simp
  qed
  moreover have "map JArr rows \<noteq> []" using ne by simp
  ultimately show "is_2d_array v"
    unfolding v is_2d_array_JArr by (rule conjI[rotated])
qed

lemma add_table_rect:
  assumes "td \<noteq> []" and len: "\<forall>r \<in> set td. length r = length (hd td)"
  shows "add_table sf p td md = Some (map (map (make_item sf p md (heatmap_avg sf td))) td)"
proof -
  obtain r0 rest where td: "td = r0 # rest" using assms(1) by (cases td) auto
  have row_len: "length r = length r0" if "r \<in> set td" for r
    using bspec [OF len that] by (simp add: td)
  have all: "list_all (\<lambda>r. length r0 \<le> length r) td"
    unfolding list_all_iff using row_len by (intro ballI) simp
  define mk where "mk = make_item sf p md (heatmap_avg sf td)"
  have "map (\<lambda>i. map (\<lambda>j. mk (td ! i ! j)) [0..<length r0]) [0..<length td] = map (map mk) td"
  proof (rule nth_equalityI)
    show "length (map (\<lambda>i. map (\<lambda>j. mk (td ! i ! j)) [0..<length r0]) [0..<length td]) = length (map (map mk) td)"
      by simp
  next
    fix i assume "i < length (map (\<lambda>i. map (\<lambda>j. mk (td ! i ! j)) [0..<length r0]) [0..<length td])"
    then have i: "i < length td" by simp
    then have li: "length (td ! i) = length r0" by (intro row_len nth_mem)
    have "map (\<lambda>j. mk (td ! i ! j)) [0..<length r0] = map mk (td ! i)"
      by (rule nth_equalityI) (simp_all add: li)
    with i show "map (\<lambda>i. map (\<lambda>j. mk (td ! i ! j)) [0..<length r0]) [0..<length td] ! i = map (map mk) td ! i"
      by simp
  qed
  then have "add_table sf p td md = Some (map (map mk) td)"
    using all unfolding add_table_def mk_def td by (simp add: Let_def)
  then show ?thesis by (simp add: mk_def)
qed

lemma add_table_2d:
  assumes "is_2d_array v"
  shows "add_table sf p (rows_of v) md = Some (map (map (make_item sf p md (heatmap_avg sf (rows_of v)))) (rows_of v))"
proof -
  from assms obtain rows where v: "v = JArr (map JArr rows)" and ne: "rows \<noteq> []"
    and len: "\<forall>r \<in> set rows. length r = length (hd rows)"
    unfolding is_2d_array_rows by (elim exE conjE)
  have "rows_of v = rows" unfolding v by (rule rows_of_map_JArr)
  then show ?thesis using add_table_rect [OF ne len] by simp
qed

lemma rstrip_all: "(\<forall>x \<in> set s. x = c) \<Longrightarrow> rstrip c s = []"
  by (simp add: rstrip_def dropWhile_eq_Nil_conv)

lemma rstrip_Nil_iff: "rstrip c s = [] \<longleftrightarrow> (\<forall>x \<in> set s. x = c)"
  by (simp add: rstrip_def dropWhile_eq_Nil_conv)

lemma rstrip_append:
  "rstrip c (a @ b) = (if rstrip c b = [] then rstrip c a else a @ rstrip c b)"
  by (simp add: rstrip_def dropWhile_append dropWhile_eq_Nil_conv)

lemma rstrip_keep: "s \<noteq> [] \<Longrightarrow> last s \<noteq> c \<Longrightarrow> rstrip c s = s"
  by (cases s rule: rev_cases) (simp_all add: rstrip_def)

lemma set_rstrip: "set (rstrip c s) \<subseteq> set s"
  unfolding rstrip_def using set_dropWhileD by fastforce

lemma length_rstrip: "length (rstrip c s) \<le> length s"
  by (simp add: rstrip_def length_dropWhile_le[of _ "rev s", simplified])

lemma last_rstrip: "rstrip c s \<noteq> [] \<Longrightarrow> last (rstrip c s) \<noteq> c"
proof -
  assume ne: "rstrip c s \<noteq> []"
  then have "dropWhile (\<lambda>x. x = c) (rev s) \<noteq> []" by (simp add: rstrip_def)
  then have "hd (dropWhile (\<lambda>x. x = c) (rev s)) \<noteq> c" by (rule hd_dropWhile)
  with ne show ?thesis by (simp add: rstrip_def last_rev)
qed

lemma digit_char_digit: "digit_char d \<in> set ''0123456789''"
proof -
  have "d mod 10 < length ''0123456789''" by simp
  then show ?thesis unfolding digit_char_def by (rule nth_mem)
qed

lemma nat_digits_digits: "set (nat_digits n) \<subseteq> set ''0123456789''"
proof (induction n rule: nat_digits.induct)
  case (1 n)
  show ?case
  proof (cases "n < 10")
    case True
    then show ?thesis using digit_char_digit[of n] by (subst nat_digits.simps) simp
  next
    case False
    then show ?thesis using 1 digit_char_digit[of n] by (subst nat_digits.simps) simp
  qed
qed

lemma nat_digits_nonempty: "nat_digits n \<noteq> []"
  by (subst nat_digits.simps) simp

lemma dot_not_digit: "CHR ''.'' \<notin> set ''0123456789''" by simp

lemma zero_digit: "CHR ''0'' \<in> set ''0123456789''" by simp

lemma frac_digits_digits: "set (frac_digits p n) \<subseteq> set ''0123456789''"
  using nat_digits_digits[of n] unfolding frac_digits_def by auto

lemma length_nat_digits: "0 < p \<Longrightarrow> n < 10 ^ p \<Longrightarrow> length (nat_digits n) \<le> p"
proof (induction n arbitrary: p rule: nat_digits.induct)
  case (1 n)
  show ?case
  proof (cases "n < 10")
    case True
    then show ?thesis using 1(2) by (subst nat_digits.simps) simp
  next
    case False
    from 1(2) obtain q where p: "p = Suc q" by (cases p) auto
    have q: "0 < q"
    proof (rule ccontr)
      assume "\<not> 0 < q" with p 1(3) False show False by simp
    qed
    have "n div 10 < 10 ^ q" using 1(3) p by (simp add: less_mult_imp_div_less mult.commute)
    with 1(1)[OF False q] have "length (nat_digits (n div 10)) \<le> q" .
    with False p show ?thesis by (subst nat_digits.simps) simp
  qed
qed

lemma length_frac_digits: "0 < p \<Longrightarrow> n < 10 ^ p \<Longrightarrow> length (frac_digits p n) = p"
  using length_nat_digits[of p n] by (simp add: frac_digits_def)

lemma format_fixed_scaled:
  "format_fixed p x = (if x < 0 then ''-'' else []) @ nat_digits (scaled_value p x div 10 ^ p)
       @ (if p = 0 then [] else CHR ''.'' # frac_digits p (scaled_value p x mod 10 ^ p))"
  by (simp add: format_fixed_def scaled_value_def Let_def)

lemma head_no_dot:
  "CHR ''.'' \<notin> set ((if x < 0 then ''-'' else []) @ nat_digits n)"
  using nat_digits_digits[of n] by auto

lemma head_last: "last ((if x < (0::rat) then ''-'' else []) @ nat_digits n) \<noteq> CHR ''.''"
proof -
  have "last (nat_digits n) \<in> set (nat_digits n)" by (simp add: nat_digits_nonempty)
  then have "last (nat_digits n) \<noteq> CHR ''.''" using nat_digits_digits[of n] by auto
  then show ?thesis by (simp add: nat_digits_nonempty)
qed

lemma strip_fixed:
  assumes dig: "set fr \<subseteq> set ''0123456789''" and hl: "hd_part \<noteq> []" "last hd_part \<noteq> CHR ''.''"
  shows "rstrip (CHR ''.'') (rstrip (CHR ''0'') (hd_part @ CHR ''.'' # fr))
       = hd_part @ (if rstrip (CHR ''0'') fr = [] then [] else CHR ''.'' # rstrip (CHR ''0'') fr)"
proof (cases "rstrip (CHR ''0'') fr = []")
  case True
  have "rstrip (CHR ''0'') (hd_part @ CHR ''.'' # fr) = rstrip (CHR ''0'') ((hd_part @ ''.'') @ fr)" by simp
  also have "\<dots> = rstrip (CHR ''0'') (hd_part @ ''.'')" using True by (subst rstrip_append) simp
  also have "\<dots> = hd_part @ ''.''" by (rule rstrip_keep) simp_all
  finally have "rstrip (CHR ''0'') (hd_part @ CHR ''.'' # fr) = hd_part @ ''.''" .
  moreover have "rstrip (CHR ''.'') (hd_part @ ''.'') = hd_part"
    using hl by (simp add: rstrip_append rstrip_def rstrip_keep[unfolded rstrip_def])
  ultimately show ?thesis using True by simp
next
  case False
  let ?d = "rstrip (CHR ''0'') fr"
  have "rstrip (CHR ''0'') (hd_part @ CHR ''.'' # fr) = rstrip (CHR ''0'') ((hd_part @ ''.'') @ fr)" by simp
  also have "\<dots> = (hd_part @ ''.'') @ ?d" using False by (subst rstrip_append) simp
  finally have a: "rstrip (CHR ''0'') (hd_part @ CHR ''.'' # fr) = hd_part @ CHR ''.'' # ?d" by simp
  have "last ?d \<in> set ?d" using False by simp
  then have "last ?d \<in> set ''0123456789''" using set_rstrip[of "CHR ''0''" fr] dig by blast
  then have "last ?d \<noteq> CHR ''.''" by auto
  then have "last (hd_part @ CHR ''.'' # ?d) \<noteq> CHR ''.''" using False by simp
  then have "rstrip (CHR ''.'') (hd_part @ CHR ''.'' # ?d) = hd_part @ CHR ''.'' # ?d"
    by (intro rstrip_keep) simp_all
  with a False show ?thesis by simp
qed

lemma format_numeric:
  assumes "py_float sf v = Some x"
  shows "format_for_display sf p v = Plain (spec_render p x)"
proof (cases "p = 0")
  case True
  have "split_dot_first ((if x < 0 then ''-'' else []) @ nat_digits (scaled_value 0 x div 10 ^ 0))
        = (if x < 0 then ''-'' else []) @ nat_digits (scaled_value 0 x div 10 ^ 0)"
    unfolding split_dot_first_def takeWhile_eq_all_conv using head_no_dot by blast
  then show ?thesis using assms True
    by (simp add: format_for_display_def format_fixed_scaled spec_render_def spec_decimals_def rstrip_def)
next
  case False
  let ?h = "(if x < 0 then ''-'' else []) @ nat_digits (scaled_value p x div 10 ^ p)"
  let ?fr = "frac_digits p (scaled_value p x mod 10 ^ p)"
  have "rstrip (CHR ''.'') (rstrip (CHR ''0'') (?h @ CHR ''.'' # ?fr))
       = ?h @ (if rstrip (CHR ''0'') ?fr = [] then [] else CHR ''.'' # rstrip (CHR ''0'') ?fr)"
  proof (rule strip_fixed)
    show "set ?fr \<subseteq> set ''0123456789''" by (rule frac_digits_digits)
    show "?h \<noteq> []" by (simp add: nat_digits_nonempty)
    show "last ?h \<noteq> CHR ''.''" by (rule head_last)
  qed
  then show ?thesis using assms False
    by (simp add: format_for_display_def format_fixed_scaled spec_render_def spec_decimals_def)
qed

lemma spec_decimals_short: "length (spec_decimals p x) \<le> p"
proof (cases "p = 0")
  case True
  then show ?thesis by (simp add: spec_decimals_def rstrip_def)
next
  case False
  have "length (frac_digits p (scaled_value p x mod 10 ^ p)) = p"
    using False by (intro length_frac_digits) simp_all
  then show ?thesis using False length_rstrip[of "CHR ''0''" "frac_digits p (scaled_value p x mod 10 ^ p)"]
    by (simp add: spec_decimals_def)
qed

lemma spec_decimals_last: "spec_decimals p x \<noteq> [] \<Longrightarrow> last (spec_decimals p x) \<noteq> CHR ''0''"
  unfolding spec_decimals_def by (rule last_rstrip)

lemma format_JInt: "format_for_display sf p (JInt n) = Plain (spec_render p (of_int n))"
  by (rule format_numeric) simp

lemma format_JFloat: "format_for_display sf p (JFloat x) = Plain (spec_render p x)"
  by (rule format_numeric) simp

lemma format_JBool: "format_for_display sf p (JBool b) = Plain (spec_render p (if b then 1 else 0))"
  by (rule format_numeric) simp

lemma format_unparsed: "py_float sf v = None \<Longrightarrow> format_for_display sf p v = PyStr v"
  by (simp add: format_for_display_def)

lemmas render_eval = spec_render_def spec_decimals_def scaled_value_def round_half_even_def Let_def
  nat_digits.simps digit_char_def frac_digits_def rstrip_def

lemma numeric_cells_drop:
  assumes "py_float sf c = None"
  shows "numeric_cells sf (rs @ (xs @ c # ys) # rs') = numeric_cells sf (rs @ (xs @ ys) # rs')"
  using assms by (simp add: numeric_cells_def map_filter_append' List.map_filter_simps)

lemma heatmap_avg_arith: "heatmap_avg sf td = arithmetic_mean (numeric_cells sf td)"
  by (simp add: heatmap_avg_mean arithmetic_mean_def)

lemma make_item_unparsed:
  "py_float sf c = None \<Longrightarrow> make_item sf p md avg c = \<lparr>text_of = PyStr c, background = None\<rparr>"
  by (simp add: make_item_def format_for_display_def cell_background_def split: option.splits)

text \<open>
  Claim C7. For a matrix (a value \<open>is_2d_array\<close> accepts), the heatmap average is the
  arithmetic mean of the values of exactly the cells that parse as numbers; \<open>add_table\<close>
  returns a table (no error); a cell that does not parse is shown as \<open>str(v)\<close> without a
  background, and taking it out of the matrix leaves the average as it was.
\<close>

theorem heatmap_avg_is_mean_of_numeric_cells:
  assumes "is_2d_array v"
  shows "heatmap_avg sf (rows_of v) = arithmetic_mean (numeric_cells sf (rows_of v))
       \<and> add_table sf p (rows_of v) md
           = Some (map (map (make_item sf p md (heatmap_avg sf (rows_of v)))) (rows_of v))
       \<and> (\<forall>c. py_float sf c = None \<longrightarrow>
             make_item sf p md (heatmap_avg sf (rows_of v)) c = \<lparr>text_of = PyStr c, background = None\<rparr>
             \<and> (\<forall>rs xs ys rs'. heatmap_avg sf (rs @ (xs @ c # ys) # rs') = heatmap_avg sf (rs @ (xs @ ys) # rs')))"
proof (intro conjI allI impI)
  show "heatmap_avg sf (rows_of v) = arithmetic_mean (numeric_cells sf (rows_of v))"
    by (rule heatmap_avg_arith)
  show "add_table sf p (rows_of v) md
           = Some (map (map (make_item sf p md (heatmap_avg sf (rows_of v)))) (rows_of v))"
    using assms by (rule add_table_2d)
next
  fix c assume "py_float sf c = None"
  then show "make_item sf p md (heatmap_avg sf (rows_of v)) c = \<lparr>text_of = PyStr c, background = None\<rparr>"
    by (rule make_item_unparsed)
next
  fix c rs xs ys rs' assume "py_float sf c = None"
  then show "heatmap_avg sf (rs @ (xs @ c # ys) # rs') = heatmap_avg sf (rs @ (xs @ ys) # rs')"
    by (simp only: heatmap_avg_arith numeric_cells_drop)
qed

theorem heatmap_avg_is_mean_of_numeric_cells_witness:
  "is_2d_array (JArr [JArr [JInt 10, JStr ''n/a''], JArr [JNull, JInt 40]])
   \<and> heatmap_avg no_numeric_strings [[JInt 10, JStr ''n/a''], [JNull, JInt 40]] = 25
   \<and> add_table no_numeric_strings 3 [[JInt 10, JStr ''n/a''], [JNull, JInt 40]] None
       = Some [[\<lparr>text_of = Plain ''10'', background = None\<rparr>, \<lparr>text_of = PyStr (JStr ''n/a''), background = None\<rparr>],
               [\<lparr>text_of = PyStr JNull, background = None\<rparr>, \<lparr>text_of = Plain ''40'', background = None\<rparr>]]"
proof -
  let ?v = "JArr [JArr [JInt 10, JStr ''n/a''], JArr [JNull, JInt 40]]"
  have m: "is_2d_array ?v" by (simp add: is_2d_array_def)
  have r: "rows_of ?v = [[JInt 10, JStr ''n/a''], [JNull, JInt 40]]" by (simp add: rows_of_def)
  have nc: "numeric_cells no_numeric_strings [[JInt 10, JStr ''n/a''], [JNull, JInt 40]] = [10, 40]"
    by (simp add: numeric_cells_def List.map_filter_simps no_numeric_strings_def)
  have t10: "format_for_display no_numeric_strings 3 (JInt 10) = Plain ''10''"
    by (simp add: format_JInt render_eval)
  have t40: "format_for_display no_numeric_strings 3 (JInt 40) = Plain ''40''"
    by (simp add: format_JInt render_eval)
  note w = heatmap_avg_is_mean_of_numeric_cells [OF m, of no_numeric_strings 3 None, unfolded r]
  from w [THEN conjunct1]
  have avg: "heatmap_avg no_numeric_strings [[JInt 10, JStr ''n/a''], [JNull, JInt 40]] = 25"
    by (simp add: nc arithmetic_mean_def)
  from w [THEN conjunct2, THEN conjunct1] have "add_table no_numeric_strings 3 [[JInt 10, JStr ''n/a''], [JNull, JInt 40]] None
       = Some (map (map (make_item no_numeric_strings 3 None
            (heatmap_avg no_numeric_strings [[JInt 10, JStr ''n/a''], [JNull, JInt 40]])))
            [[JInt 10, JStr ''n/a''], [JNull, JInt 40]])"
    .
  then have tab: "add_table no_numeric_strings 3 [[JInt 10, JStr ''n/a''], [JNull, JInt 40]] None
       = Some [[\<lparr>text_of = Plain ''10'', background = None\<rparr>, \<lparr>text_of = PyStr (JStr ''n/a''), background = None\<rparr>],
               [\<lparr>text_of = PyStr JNull, background = None\<rparr>, \<lparr>text_of = Plain ''40'', background = None\<rparr>]]"
    by (simp add: make_item_def t10 t40 cell_background_def format_unparsed no_numeric_strings_def)
  from m avg tab show ?thesis by (intro conjI)
qed

lemma cell_background_zero_avg: "cell_background sf md 0 c = None"
  by (simp add: cell_background_def split: option.splits)

text \<open>
  Claim C5. When the heatmap average of a matrix is 0, \<open>add_table\<close> gives no cell a
  background, whatever the rule (\<open>md\<close> is any threshold or none): the test \<open>avg != 0\<close>
  comes before the division.
\<close>

theorem zero_mean_no_background:
  assumes "is_2d_array v" and "heatmap_avg sf (rows_of v) = 0"
  shows "\<exists>t. add_table sf p (rows_of v) md = Some t
           \<and> (\<forall>row \<in> set t. \<forall>it \<in> set row. background it = None)"
proof -
  have "add_table sf p (rows_of v) md
          = Some (map (map (make_item sf p md 0)) (rows_of v))"
    using add_table_2d [OF assms(1), of sf p md] assms(2) by simp
  moreover have "\<forall>row \<in> set (map (map (make_item sf p md 0)) (rows_of v)).
                   \<forall>it \<in> set row. background it = None"
    by (auto simp: make_item_def cell_background_zero_avg)
  ultimately show ?thesis by blast
qed

theorem zero_mean_no_background_witness:
  "is_2d_array (JArr [JArr [JInt 3, JInt (- 3)]])
   \<and> heatmap_avg no_numeric_strings [[JInt 3, JInt (- 3)]] = 0
   \<and> (\<exists>t. add_table no_numeric_strings 3 [[JInt 3, JInt (- 3)]] (Some (1 / 10)) = Some t
          \<and> list_all (list_all (\<lambda>it. background it = None)) t)"
proof -
  let ?v = "JArr [JArr [JInt 3, JInt (- 3)]]"
  have m: "is_2d_array ?v" by (simp add: is_2d_array_def)
  have r: "rows_of ?v = [[JInt 3, JInt (- 3)]]" by (simp add: rows_of_def)
  have z: "heatmap_avg no_numeric_strings (rows_of ?v) = 0"
    by (simp add: r heatmap_avg_def)
  from zero_mean_no_background [OF m z, of 3 "Some (1 / 10)"]
  obtain t where t: "add_table no_numeric_strings 3 (rows_of ?v) (Some (1 / 10)) = Some t"
    and bg: "\<forall>row \<in> set t. \<forall>it \<in> set row. background it = None" by blast
  from bg have "list_all (list_all (\<lambda>it. background it = None)) t"
    by (simp add: list_all_iff)
  with t have "\<exists>t. add_table no_numeric_strings 3 [[JInt 3, JInt (- 3)]] (Some (1 / 10)) = Some t
          \<and> list_all (list_all (\<lambda>it. background it = None)) t"
    unfolding r by blast
  with m z show ?thesis unfolding r by (intro conjI)
qed

lemma cell_shade_out:
  assumes "avg \<noteq> 0" and "md < \<bar>num - avg\<bar> / \<bar>avg\<bar>"
  shows "cell_shade md avg num
       = Some (OutBand (max 0 (min 1 ((\<bar>num - avg\<bar> / \<bar>avg\<bar> - md) / max (md * 5) (1 / 10 ^ 12)))))"
proof -
  have "max (md * 5) (1 / 10 ^ 12) \<noteq> 0"
  proof -
    have "(0::rat) < 1 / 10 ^ 12" by simp
    then have "0 < max (md * 5) (1 / 10 ^ 12)" by (rule less_max_iff_disj[THEN iffD2, OF disjI2])
    then show ?thesis by simp
  qed
  then show ?thesis using assms
    by (simp add: cell_shade_def py_div_def red_cap_factor_def Let_def)
qed

text \<open>
  Claim C1, amended. For a cell that parses, a rule \<open>md\<close> and a non-zero average, a
  relative deviation \<open>diff\<close> above \<open>md\<close> gives the out-of-band parameter
  \<open>clamp((diff - md) / max(md * 5, 1e-12), 0, 1)\<close>: the denominator is guarded. It is the
  specification's \<open>clamp((diff - md) / (md * 5), 0, 1)\<close> whenever \<open>md * 5 \<ge> 1e-12\<close>.
  For \<open>[[10, 10], [10, 40]]\<close> the average is 17.5 and, with \<open>md = 0.1\<close>, the cell 40 has
  parameter 1.
\<close>

theorem out_of_band_parameter:
  assumes "py_float sf raw = Some num" and "avg \<noteq> 0" and "md < \<bar>num - avg\<bar> / \<bar>avg\<bar>"
  shows "cell_shade md avg num
           = Some (OutBand (max 0 (min 1 ((\<bar>num - avg\<bar> / \<bar>avg\<bar> - md) / max (md * 5) (1 / 10 ^ 12)))))
       \<and> cell_background sf (Some md) avg raw
           = Some (red_color (max 0 (min 1 ((\<bar>num - avg\<bar> / \<bar>avg\<bar> - md) / max (md * 5) (1 / 10 ^ 12)))))
       \<and> (1 / 10 ^ 12 \<le> md * 5 \<longrightarrow>
            cell_shade md avg num = Some (OutBand (spec_out_band_t md (\<bar>num - avg\<bar> / \<bar>avg\<bar>))))
       \<and> heatmap_avg sf [[JInt 10, JInt 10], [JInt 10, JInt 40]] = 35 / 2
       \<and> cell_shade (1 / 10) (35 / 2) 40 = Some (OutBand 1)"
proof (intro conjI impI)
  show a: "cell_shade md avg num
           = Some (OutBand (max 0 (min 1 ((\<bar>num - avg\<bar> / \<bar>avg\<bar> - md) / max (md * 5) (1 / 10 ^ 12)))))"
    using assms(2,3) by (rule cell_shade_out)
  show "cell_background sf (Some md) avg raw
           = Some (red_color (max 0 (min 1 ((\<bar>num - avg\<bar> / \<bar>avg\<bar> - md) / max (md * 5) (1 / 10 ^ 12)))))"
    using assms(1,2) by (simp add: cell_background_def a)
  show "heatmap_avg sf [[JInt 10, JInt 10], [JInt 10, JInt 40]] = 35 / 2"
    by (simp add: heatmap_avg_def)
  show "cell_shade (1 / 10) (35 / 2) 40 = Some (OutBand 1)"
    by (simp add: cell_shade_def py_div_def red_cap_factor_def)
next
  assume "1 / 10 ^ 12 \<le> md * 5"
  then have "max (md * 5) (1 / 10 ^ 12) = md * 5" by (rule max_absorb1)
  then show "cell_shade md avg num = Some (OutBand (spec_out_band_t md (\<bar>num - avg\<bar> / \<bar>avg\<bar>)))"
    using cell_shade_out [OF assms(2,3)] by (simp add: spec_out_band_t_def)
qed

theorem out_of_band_parameter_witness:
  "py_float no_numeric_strings (JInt 40) = Some 40
   \<and> (35 / 2 :: rat) \<noteq> 0
   \<and> (1 / 10 :: rat) < \<bar>40 - 35 / 2\<bar> / \<bar>35 / 2\<bar>
   \<and> cell_shade (1 / 10) (35 / 2) 40 = Some (OutBand (spec_out_band_t (1 / 10) (\<bar>40 - 35 / 2\<bar> / \<bar>35 / 2\<bar>)))
   \<and> spec_out_band_t (1 / 10) (\<bar>40 - 35 / 2\<bar> / \<bar>35 / 2\<bar>) = 1
   \<and> cell_background no_numeric_strings (Some (1 / 10)) (35 / 2) (JInt 40) = Some (QColor 255 140 140)"
proof -
  have h1: "py_float no_numeric_strings (JInt 40) = Some 40" by simp
  have h2: "(35 / 2 :: rat) \<noteq> 0" by simp
  have h3: "(1 / 10 :: rat) < \<bar>40 - 35 / 2\<bar> / \<bar>35 / 2\<bar>" by simp
  have h4: "(1::rat) / 10 ^ 12 \<le> 1 / 10 * 5" by simp
  note w = out_of_band_parameter [OF h1 h2 h3]
  from w [THEN conjunct2, THEN conjunct2, THEN conjunct1, THEN mp, OF h4]
  have s: "cell_shade (1 / 10) (35 / 2) 40 = Some (OutBand (spec_out_band_t (1 / 10) (\<bar>40 - 35 / 2\<bar> / \<bar>35 / 2\<bar>)))" .
  have t: "spec_out_band_t (1 / 10) (\<bar>40 - 35 / 2\<bar> / \<bar>35 / 2\<bar>) = 1"
    by (simp add: spec_out_band_t_def)
  have "max 0 (min 1 ((\<bar>40 - 35 / 2\<bar> / \<bar>35 / 2\<bar> - 1 / 10) / max (1 / 10 * 5) (1 / 10 ^ 12))) = (1::rat)"
    by simp
  with w [THEN conjunct2, THEN conjunct1]
  have "cell_background no_numeric_strings (Some (1 / 10)) (35 / 2) (JInt 40) = Some (red_color 1)"
    by simp
  then have c: "cell_background no_numeric_strings (Some (1 / 10)) (35 / 2) (JInt 40) = Some (QColor 255 140 140)"
    by (simp add: red_color_def lerp_def py_int_def)
  from h1 h2 h3 s t c show ?thesis by (intro conjI)
qed

theorem out_of_band_parameter_counterexample:
  "heatmap_avg no_numeric_strings [[JInt 9999999999998, JInt 10000000000002]] = 10000000000000
   \<and> py_float no_numeric_strings (JInt 10000000000002) = Some 10000000000002
   \<and> (1 / 10 ^ 13 :: rat) < \<bar>10000000000002 - 10000000000000\<bar> / \<bar>10000000000000\<bar>
   \<and> cell_shade (1 / 10 ^ 13) 10000000000000 10000000000002 = Some (OutBand (1 / 10))
   \<and> spec_out_band_t (1 / 10 ^ 13) (\<bar>10000000000002 - 10000000000000\<bar> / \<bar>10000000000000\<bar>) = 1 / 5"
proof (intro conjI)
  show "heatmap_avg no_numeric_strings [[JInt 9999999999998, JInt 10000000000002]] = 10000000000000"
    by (simp add: heatmap_avg_def)
  show "py_float no_numeric_strings (JInt 10000000000002) = Some 10000000000002" by simp
  show "(1 / 10 ^ 13 :: rat) < \<bar>10000000000002 - 10000000000000\<bar> / \<bar>10000000000000\<bar>" by simp
  show "cell_shade (1 / 10 ^ 13) 10000000000000 10000000000002 = Some (OutBand (1 / 10))"
    by (simp add: cell_shade_def py_div_def red_cap_factor_def)
  show "spec_out_band_t (1 / 10 ^ 13) (\<bar>10000000000002 - 10000000000000\<bar> / \<bar>10000000000000\<bar>) = 1 / 5"
    by (simp add: spec_out_band_t_def)
qed

lemma rstrip_idem: "rstrip c (rstrip c s) = rstrip c s"
proof (cases "rstrip c s = []")
  case True
  then show ?thesis by (simp add: rstrip_def)
next
  case False
  then show ?thesis by (intro rstrip_keep last_rstrip)
qed

lemma round_half_even_of_int: "round_half_even (of_int k) = k"
  by (simp add: round_half_even_def)

lemma scaled_value_of_nat: "scaled_value p (of_nat n) = n * 10 ^ p"
proof -
  have "\<bar>of_nat n :: rat\<bar> * 10 ^ p = of_int (int (n * 10 ^ p))" by simp
  then have "round_half_even (\<bar>of_nat n :: rat\<bar> * 10 ^ p) = int (n * 10 ^ p)"
    by (simp only: round_half_even_of_int)
  then show ?thesis by (simp only: scaled_value_def nat_int)
qed

lemma nat_digits_0: "nat_digits 0 = ''0''"
  by (simp add: nat_digits.simps digit_char_def)

lemma spec_decimals_of_nat: "spec_decimals p (of_nat n) = []"
proof -
  have "set (frac_digits p 0) \<subseteq> {CHR ''0''}"
    by (auto simp: frac_digits_def nat_digits_0)
  then have "rstrip (CHR ''0'') (frac_digits p 0) = []"
    by (intro rstrip_all) auto
  then show ?thesis
    by (simp add: spec_decimals_def scaled_value_of_nat rstrip_def)
qed

lemma spec_render_of_nat: "spec_render p (of_nat n) = nat_digits n"
  by (simp add: spec_render_def spec_decimals_of_nat scaled_value_of_nat)

lemma format_nonneg_int: "0 \<le> n \<Longrightarrow> format_for_display sf p (JInt n) = Plain (nat_digits (nat n))"
  using spec_render_of_nat [of p "nat n"] by (simp add: format_JInt)

lemma format_bool: "format_for_display sf p (JBool b) = Plain (if b then ''1'' else ''0'')"
proof (cases b)
  case True
  have "spec_render p 1 = ''1''"
    using spec_render_of_nat [of p 1] by (simp add: nat_digits.simps digit_char_def)
  with True show ?thesis by (simp add: format_JBool)
next
  case False
  have "spec_render p 0 = ''0''"
    using spec_render_of_nat [of p 0] by (simp add: nat_digits_0)
  with False show ?thesis by (simp add: format_JBool)
qed

text \<open>
  Claim C9. A value that parses as a number is rendered as the specification says: the
  value rounded to \<open>p\<close> places, trailing zeros of the decimals stripped and the point
  dropped when no decimal is left, so with at most \<open>p\<close> decimals and no trailing zero; a
  value that does not parse is shown as \<open>str(v)\<close>. \<open>3.14000\<close> at precision 3 gives
  \<open>3.14\<close>, \<open>5\<close> at precision 0 gives \<open>5\<close>, \<open>5.0\<close> at precision 3 gives \<open>5\<close>.
\<close>

theorem format_for_display_spec:
  "format_for_display sf p v
     = (case py_float sf v of Some x \<Rightarrow> Plain (spec_render p x) | None \<Rightarrow> PyStr v)
   \<and> length (spec_decimals p x) \<le> p
   \<and> rstrip (CHR ''0'') (spec_decimals p x) = spec_decimals p x
   \<and> format_for_display sf 3 (JFloat (314000 / 100000)) = Plain ''3.14''
   \<and> format_for_display sf 0 (JInt 5) = Plain ''5''
   \<and> format_for_display sf 3 (JFloat 5) = Plain ''5''"
proof (intro conjI)
  show "format_for_display sf p v
     = (case py_float sf v of Some x \<Rightarrow> Plain (spec_render p x) | None \<Rightarrow> PyStr v)"
    by (cases "py_float sf v") (simp_all add: format_unparsed format_numeric)
  show "length (spec_decimals p x) \<le> p" by (rule spec_decimals_short)
  show "rstrip (CHR ''0'') (spec_decimals p x) = spec_decimals p x"
    unfolding spec_decimals_def by (rule rstrip_idem)
  show "format_for_display sf 3 (JFloat (314000 / 100000)) = Plain ''3.14''"
    by (simp add: format_JFloat render_eval)
  show "format_for_display sf 0 (JInt 5) = Plain ''5''"
    by (simp add: format_JInt render_eval)
  show "format_for_display sf 3 (JFloat 5) = Plain ''5''"
    by (simp add: format_JFloat render_eval)
qed

theorem format_for_display_spec_witness:
  "format_for_display no_numeric_strings 2 (JFloat (5 / 2)) = Plain ''2.5''
   \<and> format_for_display no_numeric_strings 2 (JStr ''n/a'') = PyStr (JStr ''n/a'')
   \<and> length (spec_decimals 2 (5 / 2)) \<le> 2"
proof -
  have a: "spec_render 2 (5 / 2) = ''2.5''" by (simp add: render_eval)
  from format_for_display_spec [of no_numeric_strings 2 "JFloat (5 / 2)" "5 / 2", THEN conjunct1]
  have 1: "format_for_display no_numeric_strings 2 (JFloat (5 / 2)) = Plain ''2.5''"
    by (simp add: a)
  from format_for_display_spec [of no_numeric_strings 2 "JStr ''n/a''" "5 / 2", THEN conjunct1]
  have 2: "format_for_display no_numeric_strings 2 (JStr ''n/a'') = PyStr (JStr ''n/a'')"
    by (simp add: no_numeric_strings_def)
  from format_for_display_spec [of no_numeric_strings 2 "JStr ''n/a''" "5 / 2", THEN conjunct2, THEN conjunct1]
  have 3: "length (spec_decimals 2 (5 / 2)) \<le> 2" .
  from 1 2 3 show ?thesis by (intro conjI)
qed

text \<open>
  Claim C10. A boolean cell is a number throughout: \<open>float\<close> gives 1.0 or 0.0, the
  averaging loop appends that value, the cell is coloured as the number is, and it is
  displayed as \<open>1\<close> or \<open>0\<close>, not as \<open>str(v)\<close>.
\<close>

theorem bool_cells_are_numeric:
  "py_float sf (JBool b) = Some (if b then 1 else 0)
   \<and> collect_row sf (JBool b # vs) nums = collect_row sf vs (nums @ [if b then 1 else 0])
   \<and> heatmap_avg sf [[JBool True, JBool False]] = 1 / 2
   \<and> cell_background sf md avg (JBool b) = cell_background sf md avg (JFloat (if b then 1 else 0))
   \<and> format_for_display sf p (JBool b) = Plain (if b then ''1'' else ''0'')"
proof (intro conjI)
  show "py_float sf (JBool b) = Some (if b then 1 else 0)" by simp
  show "collect_row sf (JBool b # vs) nums = collect_row sf vs (nums @ [if b then 1 else 0])" by simp
  show "heatmap_avg sf [[JBool True, JBool False]] = 1 / 2" by (simp add: heatmap_avg_def)
  show "cell_background sf md avg (JBool b) = cell_background sf md avg (JFloat (if b then 1 else 0))"
    by (cases md) (simp_all add: cell_background_def)
  show "format_for_display sf p (JBool b) = Plain (if b then ''1'' else ''0'')"
    by (rule format_bool)
qed

theorem bool_cells_are_numeric_witness:
  "py_float no_numeric_strings (JBool True) = Some 1
   \<and> format_for_display no_numeric_strings 3 (JBool True) = Plain ''1''
   \<and> format_for_display no_numeric_strings 3 (JBool False) = Plain ''0''"
proof -
  note t = bool_cells_are_numeric [of no_numeric_strings True "[]" "[]" None 0 3]
  note f = bool_cells_are_numeric [of no_numeric_strings False "[]" "[]" None 0 3]
  from t have 1: "py_float no_numeric_strings (JBool True) = Some 1" by simp
  from t have 2: "format_for_display no_numeric_strings 3 (JBool True) = Plain ''1''" by simp
  from f have 3: "format_for_display no_numeric_strings 3 (JBool False) = Plain ''0''" by simp
  from 1 2 3 show ?thesis by (intro conjI)
qed

lemma render_data_append:
  "render_data sf tv (JObj (pre @ post)) = render_data sf tv (JObj pre) @ render_data sf tv (JObj post)"
  by simp

lemma render_data_matrix_entry:
  assumes "is_2d_array value"
  shows "render_data sf tv (JObj [(key, value)])
       = [Label (Plain (key @ '':'')) True 0,
          Table (map (map (make_item sf (precision tv)
                   (resolve_max_dev (heatmap_rules tv) (default_max_dev tv) key)
                   (heatmap_avg sf (rows_of value)))) (rows_of value))]"
  using assms is_2d_array_is_list [OF assms] by (simp add: add_table_2d)

lemma render_data_other_entry:
  assumes "\<not> is_2d_array value"
  shows "render_data sf tv (JObj [(key, value)])
       = (if is_dict value \<or> is_list value then render_data sf tv value else [])"
  using assms by simp

lemma render_data_split:
  "render_data sf tv (JObj (pre @ (key, value) # post))
     = render_data sf tv (JObj pre) @ render_data sf tv (JObj [(key, value)]) @ render_data sf tv (JObj post)"
  by simp

lemma make_item_no_rule: "background (make_item sf p None avg c) = None"
  by (simp add: make_item_def cell_background_def)

text \<open>
  Claim C2. A matrix under a dict key, wherever the dict stands in the record, is
  rendered as a label and a table coloured with the threshold \<open>resolve_max_dev\<close> gives
  its key: the key's own rule when there is one; the default when no per-table rule is
  configured (\<open>heatmap_rules\<close> is \<open>None\<close>, which \<open>__init__\<close> also makes of an empty dict);
  none, and then no cell has a background, when rules exist but not for this key.
\<close>

theorem rule_resolution_precedence:
  assumes "is_2d_array value"
  shows "render_data sf tv (JObj (pre @ (key, value) # post))
           = render_data sf tv (JObj pre)
             @ [Label (Plain (key @ '':'')) True 0,
                Table (map (map (make_item sf (precision tv)
                         (resolve_max_dev (heatmap_rules tv) (default_max_dev tv) key)
                         (heatmap_avg sf (rows_of value)))) (rows_of value))]
             @ render_data sf tv (JObj post)
       \<and> (\<forall>rules md. heatmap_rules tv = Some rules \<and> map_of rules key = Some md \<longrightarrow>
             resolve_max_dev (heatmap_rules tv) (default_max_dev tv) key = Some md)
       \<and> (heatmap_rules tv = None \<longrightarrow>
             resolve_max_dev (heatmap_rules tv) (default_max_dev tv) key = Some (default_max_dev tv))
       \<and> (\<forall>rules. heatmap_rules tv = Some rules \<and> map_of rules key = None \<longrightarrow>
             resolve_max_dev (heatmap_rules tv) (default_max_dev tv) key = None
             \<and> (\<forall>avg c. background (make_item sf (precision tv) None avg c) = None))
       \<and> heatmap_rules (table_viewer_init prec None dflt) = None
       \<and> heatmap_rules (table_viewer_init prec (Some []) dflt) = None
       \<and> heatmap_rules (table_viewer_init prec (Some (r # rs)) dflt) = Some (r # rs)"
proof (intro conjI allI impI)
  show "render_data sf tv (JObj (pre @ (key, value) # post))
           = render_data sf tv (JObj pre)
             @ [Label (Plain (key @ '':'')) True 0,
                Table (map (map (make_item sf (precision tv)
                         (resolve_max_dev (heatmap_rules tv) (default_max_dev tv) key)
                         (heatmap_avg sf (rows_of value)))) (rows_of value))]
             @ render_data sf tv (JObj post)"
    by (simp only: render_data_split [of sf tv pre key "value" post] render_data_matrix_entry [OF assms])
next
  fix rules md assume "heatmap_rules tv = Some rules \<and> map_of rules key = Some md"
  then show "resolve_max_dev (heatmap_rules tv) (default_max_dev tv) key = Some md"
    by (simp add: resolve_max_dev_def)
next
  assume "heatmap_rules tv = None"
  then show "resolve_max_dev (heatmap_rules tv) (default_max_dev tv) key = Some (default_max_dev tv)"
    by (simp add: resolve_max_dev_def)
next
  fix rules assume "heatmap_rules tv = Some rules \<and> map_of rules key = None"
  then show "resolve_max_dev (heatmap_rules tv) (default_max_dev tv) key = None"
    by (simp add: resolve_max_dev_def)
next
  fix rules avg c
  show "background (make_item sf (precision tv) None avg c) = None" by (rule make_item_no_rule)
next
  show "heatmap_rules (table_viewer_init prec None dflt) = None"
    by (simp add: table_viewer_init_def)
  show "heatmap_rules (table_viewer_init prec (Some []) dflt) = None"
    by (simp add: table_viewer_init_def)
  show "heatmap_rules (table_viewer_init prec (Some (r # rs)) dflt) = Some (r # rs)"
    by (simp add: table_viewer_init_def)
qed

lemma item_eval_10: "format_for_display sf 3 (JInt (- 50)) = Plain ''-50''"
  by (simp add: format_JInt render_eval)

lemma item_eval_100: "format_for_display sf 3 (JInt 100) = Plain ''100''"
  by (simp add: format_JInt render_eval)

theorem rule_resolution_precedence_witness:
  "is_2d_array (JArr [JArr [JInt (- 50), JInt 100]])
   \<and> render_data no_numeric_strings (table_viewer_init (Some 3) (Some [(''A'', 1 / 10)]) (Some (2 / 10)))
         (JObj [(''B'', JArr [JArr [JInt (- 50), JInt 100]])])
       = [Label (Plain ''B:'') True 0,
          Table [[\<lparr>text_of = Plain ''-50'', background = None\<rparr>,
                  \<lparr>text_of = Plain ''100'', background = None\<rparr>]]]
   \<and> render_data no_numeric_strings (table_viewer_init (Some 3) None (Some (2 / 10)))
         (JObj [(''B'', JArr [JArr [JInt (- 50), JInt 100]])])
       = [Label (Plain ''B:'') True 0,
          Table [[\<lparr>text_of = Plain ''-50'', background = Some (QColor 255 140 140)\<rparr>,
                  \<lparr>text_of = Plain ''100'', background = Some (QColor 255 140 140)\<rparr>]]]
   \<and> render_data no_numeric_strings (table_viewer_init (Some 3) (Some [(''B'', 1 / 10)]) (Some (2 / 10)))
         (JObj [(''B'', JArr [JArr [JInt (- 50), JInt 100]])])
       = [Label (Plain ''B:'') True 0,
          Table [[\<lparr>text_of = Plain ''-50'', background = Some (QColor 255 140 140)\<rparr>,
                  \<lparr>text_of = Plain ''100'', background = Some (QColor 255 140 140)\<rparr>]]]"
proof -
  let ?m = "JArr [JArr [JInt (- 50), JInt 100]]"
  have m: "is_2d_array ?m" by (simp add: is_2d_array_def)
  have r: "rows_of ?m = [[JInt (- 50), JInt 100]]" by (simp add: rows_of_def)
  have avg: "heatmap_avg no_numeric_strings [[JInt (- 50), JInt 100]] = 25"
    by (simp add: heatmap_avg_def)
  have red: "red_color 1 = QColor 255 140 140" by (simp add: red_color_def lerp_def py_int_def)
  have s1: "cell_shade (1 / 5) 25 (- 50) = Some (OutBand 1)"
    by (simp add: cell_shade_def py_div_def red_cap_factor_def)
  have s2: "cell_shade (1 / 5) 25 100 = Some (OutBand 1)"
    by (simp add: cell_shade_def py_div_def red_cap_factor_def)
  note a = rule_resolution_precedence [OF m, of no_numeric_strings
      "table_viewer_init (Some 3) (Some [(''A'', 1 / 10)]) (Some (2 / 10))" "[]" "''B''" "[]",
      THEN conjunct1, unfolded r avg]
  note b = rule_resolution_precedence [OF m, of no_numeric_strings
      "table_viewer_init (Some 3) None (Some (2 / 10))" "[]" "''B''" "[]",
      THEN conjunct1, unfolded r avg]
  from a have 1: "render_data no_numeric_strings (table_viewer_init (Some 3) (Some [(''A'', 1 / 10)]) (Some (2 / 10)))
         (JObj [(''B'', JArr [JArr [JInt (- 50), JInt 100]])])
       = [Label (Plain ''B:'') True 0,
          Table [[\<lparr>text_of = Plain ''-50'', background = None\<rparr>,
                  \<lparr>text_of = Plain ''100'', background = None\<rparr>]]]"
    by (simp add: table_viewer_init_def resolve_max_dev_def make_item_def cell_background_def
        item_eval_10 item_eval_100)
  from b have 2: "render_data no_numeric_strings (table_viewer_init (Some 3) None (Some (2 / 10)))
         (JObj [(''B'', JArr [JArr [JInt (- 50), JInt 100]])])
       = [Label (Plain ''B:'') True 0,
          Table [[\<lparr>text_of = Plain ''-50'', background = Some (QColor 255 140 140)\<rparr>,
                  \<lparr>text_of = Plain ''100'', background = Some (QColor 255 140 140)\<rparr>]]]"
    by (simp add: table_viewer_init_def resolve_max_dev_def make_item_def cell_background_def
        item_eval_10 item_eval_100 s1 s2 red)
  have s3: "cell_shade (1 / 10) 25 (- 50) = Some (OutBand 1)"
    by (simp add: cell_shade_def py_div_def red_cap_factor_def)
  have s4: "cell_shade (1 / 10) 25 100 = Some (OutBand 1)"
    by (simp add: cell_shade_def py_div_def red_cap_factor_def)
  note c = rule_resolution_precedence [OF m, of no_numeric_strings
      "table_viewer_init (Some 3) (Some [(''B'', 1 / 10)]) (Some (2 / 10))" "[]" "''B''" "[]",
      THEN conjunct1, unfolded r avg]
  from c have 3: "render_data no_numeric_strings (table_viewer_init (Some 3) (Some [(''B'', 1 / 10)]) (Some (2 / 10)))
         (JObj [(''B'', JArr [JArr [JInt (- 50), JInt 100]])])
       = [Label (Plain ''B:'') True 0,
          Table [[\<lparr>text_of = Plain ''-50'', background = Some (QColor 255 140 140)\<rparr>,
                  \<lparr>text_of = Plain ''100'', background = Some (QColor 255 140 140)\<rparr>]]]"
    by (simp add: table_viewer_init_def resolve_max_dev_def make_item_def cell_background_def
        item_eval_10 item_eval_100 s3 s4 red)
  from m 1 2 3 show ?thesis by (intro conjI)
qed

lemma relative_deviation_nonneg: "py_div \<bar>num - avg\<bar> \<bar>avg\<bar> = Some d \<Longrightarrow> 0 \<le> d"
  by (auto simp: py_div_def split: if_splits)

lemma in_band_at_mean:
  assumes "0 < md" and "avg \<noteq> 0" and "\<bar>num - avg\<bar> / \<bar>avg\<bar> = 0"
  shows "cell_shade md avg num = Some (InBand 0)"
  using assms by (simp add: cell_shade_def py_div_def)

lemma green_color_0: "green_color 0 = QColor 234 251 234"
  by (simp add: green_color_def lerp_def py_int_def)

text \<open>
  Claim C6 at the threshold 0, which the configuration admits
  (\<open>max(0.0, md)\<close>): the rule \<open>A: 0\<close> and the record \<open>{"A": [[5, 5]]}\<close>. The average is
  5 and both cells have deviation 0, so the in-band branch is taken; its \<open>diff / max_dev\<close>
  is \<open>0.0 / 0.0\<close>, the \<open>ZeroDivisionError\<close> is swallowed, and the cells stay without
  background, where the claim has the lightest green.
\<close>

theorem zero_threshold_leaves_mean_cells_uncoloured:
  "heatmap_avg no_numeric_strings [[JInt 5, JInt 5]] = 5
   \<and> py_div \<bar>5 - 5\<bar> \<bar>5\<bar> = Some 0
   \<and> cell_shade 0 5 5 = None
   \<and> render_data no_numeric_strings (table_viewer_init (Some 3) (Some [(''A'', 0)]) None)
         (JObj [(''A'', JArr [JArr [JInt 5, JInt 5]])])
       = [Label (Plain ''A:'') True 0,
          Table [[\<lparr>text_of = Plain ''5'', background = None\<rparr>,
                  \<lparr>text_of = Plain ''5'', background = None\<rparr>]]]"
proof (intro conjI)
  let ?m = "JArr [JArr [JInt 5, JInt 5]]"
  show avg: "heatmap_avg no_numeric_strings [[JInt 5, JInt 5]] = 5"
    by (simp add: heatmap_avg_def)
  show "py_div \<bar>5 - 5\<bar> \<bar>5\<bar> = Some 0" by (simp add: py_div_def)
  show s: "cell_shade 0 5 5 = None" by (simp add: cell_shade_def py_div_def)
  have m: "is_2d_array ?m" by (simp add: is_2d_array_def)
  have r: "rows_of ?m = [[JInt 5, JInt 5]]" by (simp add: rows_of_def)
  have t: "format_for_display no_numeric_strings 3 (JInt 5) = Plain ''5''"
    by (simp add: format_JInt render_eval)
  show "render_data no_numeric_strings (table_viewer_init (Some 3) (Some [(''A'', 0)]) None)
         (JObj [(''A'', JArr [JArr [JInt 5, JInt 5]])])
       = [Label (Plain ''A:'') True 0,
          Table [[\<lparr>text_of = Plain ''5'', background = None\<rparr>,
                  \<lparr>text_of = Plain ''5'', background = None\<rparr>]]]"
    unfolding render_data_matrix_entry [OF m] r avg
    by (simp add: table_viewer_init_def resolve_max_dev_def make_item_def cell_background_def t s)
qed

lemma spec_matrix_iff:
  "spec_matrix v \<longleftrightarrow> is_2d_array v \<and> list_all (list_all is_scalar) (rows_of v)"
proof (cases v)
  case (JArr rs)
  have "list_all (\<lambda>r. length (cells_of r) = length (cells_of (hd rs))) rs
        \<longleftrightarrow> (\<forall>r \<in> set rs. length (cells_of r) = length (cells_of (hd rs)))"
    by (simp only: list_all_iff)
  moreover have "list_all (\<lambda>r. list_all is_scalar (cells_of r)) rs
        \<longleftrightarrow> list_all (list_all is_scalar) (rows_of (JArr rs))"
    by (simp add: rows_of_def list_all_iff)
  moreover have "list_all is_list rs \<longleftrightarrow> (\<forall>r \<in> set rs. is_list r)"
    by (simp only: list_all_iff)
  ultimately show ?thesis
    unfolding JArr spec_matrix_def is_2d_array_JArr by (simp only: json.case) blast
qed (simp_all add: spec_matrix_def is_2d_array_def)

text \<open>
  Claim C8, amended. The classifier accepts exactly the non-empty lists whose elements
  are all lists as long as the first; it does not look at what the inner lists hold, so
  the specification's matrix is the special case where every cell is a scalar. A value
  under a dict key is rendered as a table exactly when the classifier accepts it;
  otherwise it is only searched for matrices inside it, or skipped.
\<close>

theorem is_2d_array_shape:
  "(is_2d_array v \<longleftrightarrow>
      (\<exists>rows. v = JArr (map JArr rows) \<and> rows \<noteq> [] \<and> (\<forall>r \<in> set rows. length r = length (hd rows))))
   \<and> (spec_matrix v \<longleftrightarrow> is_2d_array v \<and> list_all (list_all is_scalar) (rows_of v))
   \<and> render_data sf tv (JObj [(key, v)])
       = (if is_2d_array v
          then [Label (Plain (key @ '':'')) True 0,
                Table (map (map (make_item sf (precision tv)
                         (resolve_max_dev (heatmap_rules tv) (default_max_dev tv) key)
                         (heatmap_avg sf (rows_of v)))) (rows_of v))]
          else if is_dict v \<or> is_list v then render_data sf tv v else [])"
proof (intro conjI)
  show "is_2d_array v \<longleftrightarrow>
      (\<exists>rows. v = JArr (map JArr rows) \<and> rows \<noteq> [] \<and> (\<forall>r \<in> set rows. length r = length (hd rows)))"
    by (rule is_2d_array_rows)
  show "spec_matrix v \<longleftrightarrow> is_2d_array v \<and> list_all (list_all is_scalar) (rows_of v)"
    by (rule spec_matrix_iff)
  show "render_data sf tv (JObj [(key, v)])
       = (if is_2d_array v
          then [Label (Plain (key @ '':'')) True 0,
                Table (map (map (make_item sf (precision tv)
                         (resolve_max_dev (heatmap_rules tv) (default_max_dev tv) key)
                         (heatmap_avg sf (rows_of v)))) (rows_of v))]
          else if is_dict v \<or> is_list v then render_data sf tv v else [])"
  proof (cases "is_2d_array v")
    case True
    then show ?thesis using render_data_matrix_entry [OF True, of sf tv key] by (simp only: if_True)
  next
    case False
    then show ?thesis using render_data_other_entry [OF False, of sf tv key] by (simp only: if_False)
  qed
qed

theorem is_2d_array_shape_witness:
  "is_2d_array (JArr [JArr [JInt 1, JInt 2], JArr [JInt 3, JInt 4]])
   \<and> spec_matrix (JArr [JArr [JInt 1, JInt 2], JArr [JInt 3, JInt 4]])
   \<and> \<not> is_2d_array (JArr [JArr [JInt 1, JInt 2], JArr [JInt 3]])"
proof -
  let ?v = "JArr [JArr [JInt 1, JInt 2], JArr [JInt 3, JInt 4]]"
  note w = is_2d_array_shape [of ?v no_numeric_strings "table_viewer_init None None None" "''k''"]
  have "?v = JArr (map JArr [[JInt 1, JInt 2], [JInt 3, JInt 4]])
        \<and> [[JInt 1, JInt 2], [JInt 3, JInt 4]] \<noteq> []
        \<and> (\<forall>r \<in> set [[JInt 1, JInt 2], [JInt 3, JInt 4]]. length r = length (hd [[JInt 1, JInt 2], [JInt 3, JInt 4]]))"
    by simp
  then have "\<exists>rows. ?v = JArr (map JArr rows) \<and> rows \<noteq> [] \<and> (\<forall>r \<in> set rows. length r = length (hd rows))"
    by (rule exI)
  with w [THEN conjunct1] have 1: "is_2d_array ?v" by (rule iffD2)
  have "list_all (list_all is_scalar) (rows_of ?v)" by (simp add: rows_of_def)
  with 1 w [THEN conjunct2, THEN conjunct1] have 2: "spec_matrix ?v" by blast
  have 3: "\<not> is_2d_array (JArr [JArr [JInt 1, JInt 2], JArr [JInt 3]])"
    by (simp add: is_2d_array_def)
  from 1 2 3 show ?thesis by (intro conjI)
qed

theorem is_2d_array_shape_counterexample:
  "is_2d_array (JArr [JArr [JArr [JInt 1]]]) \<and> \<not> spec_matrix (JArr [JArr [JArr [JInt 1]]])"
  by (simp add: is_2d_array_def spec_matrix_def)

lemma py_eq_refl: "wf_json d \<Longrightarrow> py_eq d d"
proof (induction d)
  case (JArr xs)
  then show ?case by (auto simp: list_all_iff list_all2_same)
next
  case (JObj kvs)
  then show ?case by (fastforce simp: list_all_iff)
qed auto

lemma display_tables_again:
  assumes "wf_json r"
  shows "display_tables sf (fst (display_tables sf tv r)) r = (fst (display_tables sf tv r), [])"
proof (cases "py_eq r (last_rendered tv)")
  case True
  then show ?thesis by (simp add: display_tables_def)
next
  case False
  then show ?thesis using py_eq_refl [OF assms] by (simp add: display_tables_def Let_def)
qed

lemma update_view_fst:
  "fst (update_view sf a r)
     = \<lparr>table_view = fst (display_tables sf (table_view a) r), non_table_layout = recurse r\<rparr>"
  by (simp add: update_view_def render_non_table_def Let_def split: prod.splits)

lemma update_view_snd:
  "snd (update_view sf a r)
     = snd (display_tables sf (table_view a) r)
       @ clear_layout NonTableLayout (non_table_layout a) @ map (AddWidget NonTableLayout) (recurse r)"
  by (simp add: update_view_def render_non_table_def Let_def split: prod.splits)

text \<open>
  Claim C4, amended. For a decoded record \<open>r\<close> (no key twice in a dict), a second
  \<open>display_tables\<close> with the same record makes no call on the layout and leaves the table
  viewer as it is. A second \<open>update_view\<close> leaves the table viewer and the labels of the
  companion view as they are, but it does render again: \<open>render_non_table\<close> takes every
  companion label out and adds it anew.
\<close>

theorem display_tables_idempotent:
  assumes "wf_json r"
  shows "display_tables sf (fst (display_tables sf tv r)) r = (fst (display_tables sf tv r), [])
       \<and> table_view (fst (update_view sf (fst (update_view sf a r)) r)) = table_view (fst (update_view sf a r))
       \<and> non_table_layout (fst (update_view sf (fst (update_view sf a r)) r))
           = non_table_layout (fst (update_view sf a r))
       \<and> snd (update_view sf (fst (update_view sf a r)) r)
           = clear_layout NonTableLayout (recurse r) @ map (AddWidget NonTableLayout) (recurse r)"
proof (intro conjI)
  show 1: "display_tables sf (fst (display_tables sf tv r)) r = (fst (display_tables sf tv r), [])"
    using assms by (rule display_tables_again)
  have 2: "display_tables sf (fst (display_tables sf (table_view a) r)) r
             = (fst (display_tables sf (table_view a) r), [])"
    using assms by (rule display_tables_again)
  show "table_view (fst (update_view sf (fst (update_view sf a r)) r)) = table_view (fst (update_view sf a r))"
    by (simp add: update_view_fst 2)
  show "non_table_layout (fst (update_view sf (fst (update_view sf a r)) r))
           = non_table_layout (fst (update_view sf a r))"
    by (simp add: update_view_fst)
  show "snd (update_view sf (fst (update_view sf a r)) r)
           = clear_layout NonTableLayout (recurse r) @ map (AddWidget NonTableLayout) (recurse r)"
    by (simp add: update_view_snd update_view_fst 2)
qed

theorem display_tables_idempotent_witness:
  "wf_json (JObj [(''a'', JInt 1)])
   \<and> snd (display_tables no_numeric_strings
            (fst (display_tables no_numeric_strings (table_viewer_init None None None) (JObj [(''a'', JInt 1)])))
            (JObj [(''a'', JInt 1)])) = []"
proof -
  have w: "wf_json (JObj [(''a'', JInt 1)])" by simp
  from display_tables_idempotent [OF w, of no_numeric_strings "table_viewer_init None None None"
      "app_init None None None", THEN conjunct1]
  have "snd (display_tables no_numeric_strings
            (fst (display_tables no_numeric_strings (table_viewer_init None None None) (JObj [(''a'', JInt 1)])))
            (JObj [(''a'', JInt 1)])) = []"
    by simp
  with w show ?thesis by (intro conjI)
qed

theorem display_tables_idempotent_counterexample:
  "snd (update_view no_numeric_strings
          (fst (update_view no_numeric_strings (app_init None None None) (JObj [(''a'', JInt 1)])))
          (JObj [(''a'', JInt 1)]))
     = [TakeAt NonTableLayout (Label (Plain ''a:'') True 0),
        TakeAt NonTableLayout (Label (PyStr (JInt 1)) False 10),
        AddWidget NonTableLayout (Label (Plain ''a:'') True 0),
        AddWidget NonTableLayout (Label (PyStr (JInt 1)) False 10)]"
proof -
  have d: "display_tables no_numeric_strings
             (fst (display_tables no_numeric_strings (table_viewer_init None None None) (JObj [(''a'', JInt 1)])))
             (JObj [(''a'', JInt 1)])
           = (fst (display_tables no_numeric_strings (table_viewer_init None None None) (JObj [(''a'', JInt 1)])), [])"
    by (rule display_tables_again) simp
  show ?thesis
    by (simp add: update_view_snd update_view_fst app_init_def d clear_layout_def)
qed

lemma start_emitted:
  "emitted (start loads w reads) = emitted w @ concat (map (records_of loads) reads)"
proof (induction reads arbitrary: w)
  case Nil
  show ?case by simp
next
  case (Cons r reads)
  have "emitted (read_step loads w r) = emitted w @ records_of loads r"
    by (simp add: read_step_def records_of_def split: read_result.splits option.splits)
  then show ?case by (simp add: Cons)
qed

text \<open>
  Claim C3, amended. The records emitted over any sequence of reads are those emitted
  before it followed by what each read contributes by itself (\<open>records_of\<close> looks at one
  line only, and the state the loop starts in, its buffer included, plays no part). A line
  that parses as a JSON object emits that one record and prints nothing; a line that does
  not parse emits and prints nothing; a line that parses as JSON but not as an object
  emits nothing, and the \<open>TypeError\<close> of the \<open>dict\<close> signal is printed.
\<close>

theorem reader_loop_records:
  "emitted (start loads w reads) = emitted w @ concat (map (records_of loads) reads)
   \<and> (\<forall>line kvs. line \<noteq> [] \<and> loads line = Some (JObj kvs) \<longrightarrow>
         emitted (read_step loads w (Line line)) = emitted w @ [JObj kvs]
         \<and> printed (read_step loads w (Line line)) = printed w)
   \<and> (\<forall>line. loads line = None \<longrightarrow>
         emitted (read_step loads w (Line line)) = emitted w
         \<and> printed (read_step loads w (Line line)) = printed w)
   \<and> (\<forall>line v. line \<noteq> [] \<and> loads line = Some v \<and> \<not> is_dict v \<longrightarrow>
         emitted (read_step loads w (Line line)) = emitted w
         \<and> printed (read_step loads w (Line line)) = printed w @ [EmitTypeError])"
proof (intro conjI allI impI)
  show "emitted (start loads w reads) = emitted w @ concat (map (records_of loads) reads)"
    by (rule start_emitted)
next
  fix line kvs assume a: "line \<noteq> [] \<and> loads line = Some (JObj kvs)"
  show "emitted (read_step loads w (Line line)) = emitted w @ [JObj kvs]"
    using a by (simp add: read_step_def)
  show "printed (read_step loads w (Line line)) = printed w"
    using a by (simp add: read_step_def)
next
  fix line assume a: "loads line = None"
  show "emitted (read_step loads w (Line line)) = emitted w"
    using a by (simp add: read_step_def)
  show "printed (read_step loads w (Line line)) = printed w"
    using a by (simp add: read_step_def)
next
  fix line v assume a: "line \<noteq> [] \<and> loads line = Some v \<and> \<not> is_dict v"
  show "emitted (read_step loads w (Line line)) = emitted w"
    using a by (simp add: read_step_def)
  show "printed (read_step loads w (Line line)) = printed w @ [EmitTypeError]"
    using a by (simp add: read_step_def)
qed

theorem reader_loop_records_witness:
  "sample_loads line_object = Some (JObj [(''a'', JInt 1)])
   \<and> sample_loads line_truncated = None
   \<and> emitted (start sample_loads serial_worker_init [Line line_object, Line line_truncated, Line line_object])
       = [JObj [(''a'', JInt 1)], JObj [(''a'', JInt 1)]]
   \<and> printed (read_step sample_loads serial_worker_init (Line line_truncated)) = []
   \<and> emitted (read_step sample_loads serial_worker_init (Line line_object)) = [JObj [(''a'', JInt 1)]]
   \<and> printed (read_step sample_loads serial_worker_init (Line line_array)) = [EmitTypeError]"
proof -
  have o: "sample_loads line_object = Some (JObj [(''a'', JInt 1)])" by (simp add: sample_loads_def)
  have t: "sample_loads line_truncated = None"
    by (simp add: sample_loads_def line_truncated_def line_object_def line_array_def)
  have ne: "line_object \<noteq> []" "line_truncated \<noteq> []" by (simp_all add: line_object_def line_truncated_def)
  note w = reader_loop_records [of sample_loads serial_worker_init
      "[Line line_object, Line line_truncated, Line line_object]"]
  from w [THEN conjunct1]
  have e: "emitted (start sample_loads serial_worker_init [Line line_object, Line line_truncated, Line line_object])
       = [JObj [(''a'', JInt 1)], JObj [(''a'', JInt 1)]]"
    by (simp add: records_of_def o t ne serial_worker_init_def)
  from w [THEN conjunct2, THEN conjunct2, THEN conjunct1] t
  have "printed (read_step sample_loads serial_worker_init (Line line_truncated)) = printed serial_worker_init"
    by blast
  then have p: "printed (read_step sample_loads serial_worker_init (Line line_truncated)) = []"
    by (simp add: serial_worker_init_def)
  from w [THEN conjunct2, THEN conjunct1] ne(1) o
  have "emitted (read_step sample_loads serial_worker_init (Line line_object))
          = emitted serial_worker_init @ [JObj [(''a'', JInt 1)]]"
    by blast
  then have q: "emitted (read_step sample_loads serial_worker_init (Line line_object)) = [JObj [(''a'', JInt 1)]]"
    by (simp add: serial_worker_init_def)
  have ar: "sample_loads line_array = Some (JArr [JInt 1])"
    by (simp add: sample_loads_def line_array_def line_object_def)
  have na: "line_array \<noteq> []" by (simp add: line_array_def)
  have nd: "\<not> is_dict (JArr [JInt 1])" by simp
  from w [THEN conjunct2, THEN conjunct2, THEN conjunct2] na ar nd
  have "printed (read_step sample_loads serial_worker_init (Line line_array))
          = printed serial_worker_init @ [EmitTypeError]"
    by blast
  then have u: "printed (read_step sample_loads serial_worker_init (Line line_array)) = [EmitTypeError]"
    by (simp add: serial_worker_init_def)
  from o t e p q u show ?thesis by (intro conjI)
qed

theorem reader_loop_records_counterexample:
  "sample_loads line_array = Some (JArr [JInt 1])
   \<and> line_array \<noteq> []
   \<and> emitted (read_step sample_loads serial_worker_init (Line line_array)) = []
   \<and> printed (read_step sample_loads serial_worker_init (Line line_array)) = [EmitTypeError]"
proof -
  have a: "sample_loads line_array = Some (JArr [JInt 1])"
    by (simp add: sample_loads_def line_array_def line_object_def)
  have ne: "line_array \<noteq> []" by (simp add: line_array_def)
  from a ne show ?thesis by (simp add: read_step_def serial_worker_init_def)
qed

text \<open>
  With a positive threshold the in-band branch is sound: the relative deviation is never
  negative, and a cell at the mean gets parameter 0, the lightest green
  \<open>(234, 251, 234)\<close>.
\<close>

theorem positive_threshold_mean_cell_lightest_green:
  assumes "0 < md" and "avg \<noteq> 0" and "py_float sf raw = Some num"
    and "\<bar>num - avg\<bar> / \<bar>avg\<bar> = 0"
  shows "cell_shade md avg num = Some (InBand 0)
       \<and> cell_background sf (Some md) avg raw = Some (QColor 234 251 234)
       \<and> (\<forall>x d. py_div \<bar>x - avg\<bar> \<bar>avg\<bar> = Some d \<longrightarrow> 0 \<le> d)"
proof (intro conjI allI impI)
  show s: "cell_shade md avg num = Some (InBand 0)"
    using assms(1,2,4) by (rule in_band_at_mean)
  show "cell_background sf (Some md) avg raw = Some (QColor 234 251 234)"
    using assms(2,3) by (simp add: cell_background_def s green_color_0)
next
  fix x d assume "py_div \<bar>x - avg\<bar> \<bar>avg\<bar> = Some d"
  then show "0 \<le> d" by (rule relative_deviation_nonneg)
qed

theorem positive_threshold_mean_cell_lightest_green_witness:
  "(0::rat) < 1 / 10 \<and> (5::rat) \<noteq> 0 \<and> py_float no_numeric_strings (JInt 5) = Some 5
   \<and> cell_shade (1 / 10) 5 5 = Some (InBand 0)
   \<and> cell_background no_numeric_strings (Some (1 / 10)) 5 (JInt 5) = Some (QColor 234 251 234)"
proof -
  have h1: "(0::rat) < 1 / 10" by simp
  have h2: "(5::rat) \<noteq> 0" by simp
  have h3: "py_float no_numeric_strings (JInt 5) = Some 5" by simp
  have h4: "\<bar>5 - 5\<bar> / \<bar>5::rat\<bar> = 0" by simp
  note w = positive_threshold_mean_cell_lightest_green [OF h1 h2 h3 h4]
  from h1 h2 h3 w [THEN conjunct1] w [THEN conjunct2, THEN conjunct1] show ?thesis
    by (intro conjI)
qed

end
